theory Spec2Isabelle
  imports Complex_Main
begin

section \<open>Carbon-RWA: the data model of \<^verbatim>\<open>src/dataset.py\<close>\<close>

text \<open>
  The script works on a pandas table with one row per facility. A row of the joined
  table (the SQL query of Part A) is a record; the columns that Parts B and C add are
  record extensions. Column arithmetic of pandas is elementwise, so a column
  operation is a map over the rows. Python floats are modelled as real numbers.
\<close>

record facility =
  Sector :: string
  Exposure_INR_Cr :: real
  Maturity_Years :: real
  Interest_Rate :: real
  LGD :: real
  Carbon_Intensity :: real
  Transition_Readiness :: real

record risk_row = facility +
  Base_PD :: real
  Current_RWA :: real
  Current_Capital :: real
  Stressed_PD :: real
  Stressed_RWA :: real
  Stressed_Capital :: real
  Net_Income :: real

record strategy_row = risk_row +
  Optimized_Retention :: real
  Strategy :: string

section \<open>The standard normal distribution (\<^verbatim>\<open>scipy.stats.norm\<close>)\<close>

text \<open>
  \<^verbatim>\<open>norm.cdf\<close> is the standard normal distribution function
  \<open>1/2 + (1 / sqrt (2 pi)) * integral from 0 to x of exp (- t^2 / 2)\<close>. The integral is
  given by its power series: the coefficient of \<open>x ^ (2 k + 1)\<close> is
  \<open>(-1) ^ k / (2 ^ k * k! * (2 k + 1))\<close>. \<^verbatim>\<open>norm.ppf\<close> is the inverse function,
  meaningful for arguments strictly between 0 and 1.
\<close>

definition gauss_coeff :: "nat \<Rightarrow> real" where
  "gauss_coeff n =
     (if even n then 0
      else (- 1) ^ ((n - 1) div 2) / (2 ^ ((n - 1) div 2) * fact ((n - 1) div 2) * real n))"

definition gauss_int :: "real \<Rightarrow> real" where
  "gauss_int x = (\<Sum>n. gauss_coeff n * x ^ n)"

definition norm_cdf :: "real \<Rightarrow> real" where
  "norm_cdf x = 1 / 2 + gauss_int x / sqrt (2 * pi)"

definition norm_ppf :: "real \<Rightarrow> real" where
  "norm_ppf p = the_inv norm_cdf p"


section \<open>Part B: the Basel III risk engine\<close>

text \<open>Line 97: \<^verbatim>\<open>Base_PD = beta draw + Carbon_Intensity / 100000\<close>.\<close>

definition calibrate_base_pd :: "real \<Rightarrow> real \<Rightarrow> real" where
  "calibrate_base_pd hazard ci = hazard + ci / 100000"

text \<open>Lines 101-118, statement by statement.\<close>

definition pd_floor :: "real \<Rightarrow> real" where
  "pd_floor pd_val = max pd_val 0.0003"

definition asset_correlation :: "real \<Rightarrow> real" where
  "asset_correlation p =
     0.12 * ((1 - exp (- 50 * p)) / (1 - exp (- 50))) +
     0.24 * (1 - ((1 - exp (- 50 * p)) / (1 - exp (- 50))))"

definition maturity_adjustment :: "real \<Rightarrow> real" where
  "maturity_adjustment p = (0.11852 - 0.05478 * ln p) ^ 2"

definition capital_charge :: "real \<Rightarrow> real \<Rightarrow> real \<Rightarrow> real" where
  "capital_charge p lgd maturity =
     (let r = asset_correlation p;
          b = maturity_adjustment p;
          term1 = norm_ppf p;
          term2 = norm_ppf 0.999
      in (lgd * norm_cdf ((term1 + sqrt r * term2) / sqrt (1 - r)) - (p * lgd)) *
         (1 + (maturity - 2.5) * b) / (1 - 1.5 * b))"

definition calculate_rwa :: "real \<Rightarrow> real \<Rightarrow> real \<Rightarrow> real \<Rightarrow> real" where
  "calculate_rwa exposure pd_val lgd maturity =
     exposure * capital_charge (pd_floor pd_val) lgd maturity * 12.5"

section \<open>Part C: stress transform\<close>

definition carbon_tax :: real where
  "carbon_tax = 4200"

definition shock_impact :: "real \<Rightarrow> real" where
  "shock_impact ci = (ci * carbon_tax) / 1000000"

text \<open>Line 133 followed by the cap of line 136.\<close>

definition stress_pd :: "real \<Rightarrow> real \<Rightarrow> real \<Rightarrow> real" where
  "stress_pd base_pd ci tr = min (base_pd * (1 + (shock_impact ci * (1 - tr)))) 0.999"

text \<open>Line 141.\<close>

definition net_income :: "real \<Rightarrow> real \<Rightarrow> real \<Rightarrow> real \<Rightarrow> real" where
  "net_income exposure rate spd lgd = (exposure * rate) - (exposure * spd * lgd)"

text \<open>
  Lines 97-141 for one row. \<open>hazard\<close> is the row's draw of
  \<^verbatim>\<open>np.random.beta(1.5, 30, len(df))\<close>.
\<close>

definition derive_row :: "real \<Rightarrow> facility \<Rightarrow> risk_row" where
  "derive_row hazard f =
     (let base = calibrate_base_pd hazard (Carbon_Intensity f);
          cur_rwa = calculate_rwa (Exposure_INR_Cr f) base (LGD f) (Maturity_Years f);
          spd = stress_pd base (Carbon_Intensity f) (Transition_Readiness f);
          str_rwa = calculate_rwa (Exposure_INR_Cr f) spd (LGD f) (Maturity_Years f)
      in facility.extend f
           (risk_row.fields base cur_rwa (cur_rwa * 0.105) spd str_rwa (str_rwa * 0.105)
              (net_income (Exposure_INR_Cr f) (Interest_Rate f) spd (LGD f))))"

definition risk_engine :: "real list \<Rightarrow> facility list \<Rightarrow> risk_row list" where
  "risk_engine hazards df = map2 derive_row hazards df"

text \<open>The wording of the specification for the stress transform, to compare with.\<close>

definition spec_stressed_pd :: "real \<Rightarrow> real \<Rightarrow> real \<Rightarrow> real" where
  "spec_stressed_pd b ci tr = min (b * (1 + ((ci * 4200) / 1000000) * (1 - tr))) 0.999"


section \<open>Part C: the linear program\<close>

text \<open>
  \<^verbatim>\<open>scipy.optimize.linprog\<close> is not part of the repository: it enters the model as a
  parameter. Lines 150-160 build its arguments \<^verbatim>\<open>c\<close>, \<^verbatim>\<open>A_ub\<close>, \<^verbatim>\<open>b_ub\<close> and
  \<^verbatim>\<open>bounds\<close>; its result has the fields \<^verbatim>\<open>success\<close>, \<^verbatim>\<open>x\<close> and \<^verbatim>\<open>message\<close>
  (\<open>obj_c\<close> and \<open>sol_x\<close> here, since one-letter field names would capture variables).
\<close>


record lp_problem =
  obj_c :: "real list"
  A_ub :: "real list list"
  b_ub :: "real list"
  bounds :: "(real \<times> real) list"

record lp_result =
  success :: bool
  sol_x :: "real list"
  message :: string

definition formulate_lp :: "risk_row list \<Rightarrow> lp_problem" where
  "formulate_lp df =
     \<lparr>obj_c = map (\<lambda>r. - 1 * Net_Income r) df,
      A_ub = [map Stressed_Capital df, map (\<lambda>r. - 1 * Exposure_INR_Cr r) df],
      b_ub = [sum_list (map Current_Capital df) * 1.10,
              - 1 * sum_list (map Exposure_INR_Cr df) * 0.85],
      bounds = map (\<lambda>_. (0, 1)) df\<rparr>"

text \<open>
  What the documentation of \<^verbatim>\<open>linprog\<close> promises of a successful result: \<open>x\<close> has
  one entry per variable and satisfies \<open>A_ub x \<le> b_ub\<close> and the bounds, each within the
  solver's feasibility tolerance \<open>eps\<close>.
\<close>

definition dot :: "real list \<Rightarrow> real list \<Rightarrow> real" where
  "dot row xs = sum_list (map2 (*) row xs)"

definition lp_feasible :: "real \<Rightarrow> lp_problem \<Rightarrow> real list \<Rightarrow> bool" where
  "lp_feasible eps lp xs \<longleftrightarrow>
     length xs = length (bounds lp) \<and>
     list_all (\<lambda>(row, b). dot row xs \<le> b + eps) (zip (A_ub lp) (b_ub lp)) \<and>
     list_all (\<lambda>(v, (lo, hi)). lo - eps \<le> v \<and> v \<le> hi + eps) (zip xs (bounds lp))"

definition linprog_contract :: "real \<Rightarrow> (lp_problem \<Rightarrow> lp_result) \<Rightarrow> bool" where
  "linprog_contract eps linprog \<longleftrightarrow>
     (\<forall>lp. success (linprog lp) \<longrightarrow> lp_feasible eps lp (sol_x (linprog lp)))"

text \<open>
  Lines 164-180. The console is a list of the lines printed (the two rates of return are
  kept as numbers, not as formatted text); \<open>final_strategy_output\<close> is the file
  \<^verbatim>\<open>final_strategy_output.csv\<close>, \<open>None\<close> when it is not written; \<open>frame\<close> is the table
  in memory at the end, with or without the two columns of the success branch. Assigning
  a column of the wrong length raises \<^verbatim>\<open>ValueError\<close> in pandas. Line 142
  (\<^verbatim>\<open>fillna\<close>) changes nothing in a table of real numbers; it is modelled on cells
  below.
\<close>

datatype console_line =
  Separator
  | Optimization_Successful
  | Stressed_ROE real
  | Optimized_ROE real
  | Optimization_Failed string

datatype error = ValueError

record outcome =
  console :: "console_line list"
  final_strategy_output :: "strategy_row list option"
  frame :: "risk_row list + strategy_row list"

definition decide :: "risk_row \<Rightarrow> real \<Rightarrow> strategy_row" where
  "decide r v =
     risk_row.extend r (strategy_row.fields v (if v < 0.1 then ''Exit'' else ''Hold''))"

definition optimize_portfolio ::
  "(lp_problem \<Rightarrow> lp_result) \<Rightarrow> risk_row list \<Rightarrow> error + outcome" where
  "optimize_portfolio linprog df =
     (let res = linprog (formulate_lp df) in
      if success res then
        if length (sol_x res) \<noteq> length df then Inl ValueError
        else
          let out = map2 decide df (sol_x res);
              base_roe = sum_list (map Net_Income df) / sum_list (map Stressed_Capital df);
              opt_roe = sum_list (map2 (*) (map Net_Income df) (sol_x res)) /
                        sum_list (map2 (*) (map Stressed_Capital df) (sol_x res))
          in Inr \<lparr>console = [Separator, Optimization_Successful, Stressed_ROE base_roe,
                              Optimized_ROE opt_roe, Separator],
                   final_strategy_output = Some out, frame = Inr out\<rparr>
      else Inr \<lparr>console = [Optimization_Failed (message res)],
                final_strategy_output = None, frame = Inl df\<rparr>)"

text \<open>
  A small solver to run the model on: it offers to keep every facility whole and reports
  failure when that point is not feasible.
\<close>

definition keep_all_solver :: "lp_problem \<Rightarrow> lp_result" where
  "keep_all_solver lp =
     (let xs = map (\<lambda>_. 1) (bounds lp) in
      if lp_feasible 0 lp xs
      then \<lparr>success = True, sol_x = xs, message = ''Optimization terminated successfully.''\<rparr>
      else \<lparr>success = False, sol_x = [], message = ''The problem is infeasible.''\<rparr>)"

text \<open>
  A row of the table after Part B with given current and stressed capital, to run the
  optimizer stage on.
\<close>

definition demo_row :: "real \<Rightarrow> real \<Rightarrow> risk_row" where
  "demo_row cur_cap str_cap =
     \<lparr>Sector = ''Pharma'', Exposure_INR_Cr = 100, Maturity_Years = 5, Interest_Rate = 0.1,
      LGD = 0.45, Carbon_Intensity = 200, Transition_Readiness = 0.5, Base_PD = 0.03,
      Current_RWA = cur_cap / 0.105, Current_Capital = cur_cap, Stressed_PD = 0.04,
      Stressed_RWA = str_cap / 0.105, Stressed_Capital = str_cap, Net_Income = 8.2\<rparr>"

section \<open>Line 142: \<^verbatim>\<open>df.fillna(0)\<close> on float cells\<close>

text \<open>
  A float64 cell is a number, NaN or one of the two infinities. pandas counts NaN as
  missing and the infinities as values, so \<^verbatim>\<open>fillna\<close> replaces NaN only.
\<close>

datatype cell = Num real | NaN | PosInf | NegInf

fun isfinite :: "cell \<Rightarrow> bool" where
  "isfinite (Num v) = True"
| "isfinite c = False"

fun fillna_cell :: "real \<Rightarrow> cell \<Rightarrow> cell" where
  "fillna_cell v NaN = Num v"
| "fillna_cell v c = c"

definition fillna :: "real \<Rightarrow> cell list \<Rightarrow> cell list" where
  "fillna v col = map (fillna_cell v) col"

section \<open>Properties of the stress transform\<close>

lemma risk_engine_nth:
  assumes "i < length df" "length hazards = length df"
  shows "risk_engine hazards df ! i = derive_row (hazards ! i) (df ! i)"
  using assms by (simp add: risk_engine_def)

lemma derive_row_Stressed_PD:
  "Stressed_PD (derive_row h f) =
     stress_pd (Base_PD (derive_row h f)) (Carbon_Intensity f) (Transition_Readiness f)"
  by (simp add: derive_row_def Let_def facility.defs risk_row.defs)

lemma derive_row_Base_PD:
  "Base_PD (derive_row h f) = calibrate_base_pd h (Carbon_Intensity f)"
  by (simp add: derive_row_def Let_def facility.defs risk_row.defs)

lemma derive_row_inputs:
  "Exposure_INR_Cr (derive_row h f) = Exposure_INR_Cr f"
  "Interest_Rate (derive_row h f) = Interest_Rate f"
  "LGD (derive_row h f) = LGD f"
  "Carbon_Intensity (derive_row h f) = Carbon_Intensity f"
  "Transition_Readiness (derive_row h f) = Transition_Readiness f"
  by (simp_all add: derive_row_def Let_def facility.defs risk_row.defs)

lemma derive_row_Net_Income:
  "Net_Income (derive_row h f) =
     net_income (Exposure_INR_Cr f) (Interest_Rate f) (Stressed_PD (derive_row h f)) (LGD f)"
  by (simp add: derive_row_def Let_def facility.defs risk_row.defs)

lemma stress_pd_le_cap: "stress_pd b ci tr \<le> 0.999"
  by (simp add: stress_pd_def)

lemma stress_pd_ge:
  assumes "0 \<le> b" "0 \<le> ci" "0 \<le> tr" "tr \<le> 1"
  shows "min b 0.999 \<le> stress_pd b ci tr"
proof -
  have "0 \<le> shock_impact ci * (1 - tr)"
    using assms by (simp add: shock_impact_def carbon_tax_def)
  then have "b * 1 \<le> b * (1 + shock_impact ci * (1 - tr))"
    using assms(1) by (intro mult_left_mono) simp_all
  then show ?thesis
    by (simp add: stress_pd_def min_def)
qed

lemma stress_pd_full_readiness: "stress_pd b ci 1 = min b 0.999"
  by (simp add: stress_pd_def)

text \<open>
  C2. For every row of the table, the stress transform computes
  \<open>shock = (carbon_intensity * 4200) / 1000000\<close> and
  \<open>stressed_pd = min (base_pd * (1 + shock * (1 - readiness))) 0.999\<close>, with the
  carbon-tax rate 4200: the column \<open>Stressed_PD\<close> that the script writes agrees with
  the formula as the specification words it.
\<close>

theorem stress_transform_formula:
  assumes "i < length df" and "length hazards = length df"
  shows "carbon_tax = 4200 \<and>
         shock_impact (Carbon_Intensity (df ! i)) = (Carbon_Intensity (df ! i) * 4200) / 1000000 \<and>
         Stressed_PD (risk_engine hazards df ! i) =
           spec_stressed_pd (Base_PD (risk_engine hazards df ! i))
             (Carbon_Intensity (df ! i)) (Transition_Readiness (df ! i))"
  using assms
  by (simp add: risk_engine_nth derive_row_Stressed_PD stress_pd_def spec_stressed_pd_def
      shock_impact_def carbon_tax_def)

theorem stress_transform_formula_witness:
  "(0::nat) < length [\<lparr>Sector = ''Steel & Cement'', Exposure_INR_Cr = 100, Maturity_Years = 5,
        Interest_Rate = 0.1, LGD = 0.45, Carbon_Intensity = 1800,
        Transition_Readiness = 0.5\<rparr>] \<and>
   Stressed_PD (risk_engine [0.05] [\<lparr>Sector = ''Steel & Cement'', Exposure_INR_Cr = 100,
        Maturity_Years = 5, Interest_Rate = 0.1, LGD = 0.45, Carbon_Intensity = 1800,
        Transition_Readiness = 0.5\<rparr>] ! 0) = 0.32504"
  using stress_transform_formula [of 0 "[\<lparr>Sector = ''Steel & Cement'', Exposure_INR_Cr = 100,
        Maturity_Years = 5, Interest_Rate = 0.1, LGD = 0.45, Carbon_Intensity = 1800,
        Transition_Readiness = 0.5\<rparr>]" "[0.05]"]
  by (simp add: risk_engine_nth derive_row_Base_PD calibrate_base_pd_def spec_stressed_pd_def)

text \<open>
  C3, as stated: for every facility with non-negative carbon intensity and readiness in
  \<open>[0, 1]\<close>, \<open>stressed_pd \<ge> base_pd\<close> and \<open>stressed_pd \<le> 0.999\<close>. The cap of line 136
  breaks the first half for a base probability above 0.999: here the draw is 0.9975 and
  the carbon loading 0.002, so \<open>base_pd = 0.9995\<close> and \<open>stressed_pd = 0.999\<close>.
\<close>

theorem stressed_pd_ge_base_counterexample:
  "\<not> (Base_PD (derive_row 0.9975 \<lparr>Sector = ''Pharma'', Exposure_INR_Cr = 100,
          Maturity_Years = 5, Interest_Rate = 0.1, LGD = 0.45, Carbon_Intensity = 200,
          Transition_Readiness = 0.5\<rparr>)
       \<le> Stressed_PD (derive_row 0.9975 \<lparr>Sector = ''Pharma'', Exposure_INR_Cr = 100,
          Maturity_Years = 5, Interest_Rate = 0.1, LGD = 0.45, Carbon_Intensity = 200,
          Transition_Readiness = 0.5\<rparr>))"
  by (simp add: derive_row_Stressed_PD derive_row_Base_PD calibrate_base_pd_def stress_pd_def
      shock_impact_def carbon_tax_def)

text \<open>
  C3, amended: for every facility with non-negative base probability, non-negative
  carbon intensity and readiness in \<open>[0, 1]\<close>, \<open>stressed_pd \<ge> min base_pd 0.999\<close> and
  \<open>stressed_pd \<le> 0.999\<close>; so \<open>stressed_pd \<ge> base_pd\<close> whenever \<open>base_pd \<le> 0.999\<close>.
\<close>

theorem stressed_pd_bounds:
  assumes "0 \<le> Base_PD (derive_row h f)" and "0 \<le> Carbon_Intensity f"
    and "0 \<le> Transition_Readiness f" and "Transition_Readiness f \<le> 1"
  shows "min (Base_PD (derive_row h f)) 0.999 \<le> Stressed_PD (derive_row h f) \<and>
         Stressed_PD (derive_row h f) \<le> 0.999"
  using stress_pd_ge [OF assms] stress_pd_le_cap
  by (simp add: derive_row_Stressed_PD)

theorem stressed_pd_bounds_witness:
  "0 \<le> Base_PD (derive_row 0.05 \<lparr>Sector = ''Steel & Cement'', Exposure_INR_Cr = 100,
        Maturity_Years = 5, Interest_Rate = 0.1, LGD = 0.45, Carbon_Intensity = 1800,
        Transition_Readiness = 0.5\<rparr>) \<and>
   Base_PD (derive_row 0.05 \<lparr>Sector = ''Steel & Cement'', Exposure_INR_Cr = 100,
        Maturity_Years = 5, Interest_Rate = 0.1, LGD = 0.45, Carbon_Intensity = 1800,
        Transition_Readiness = 0.5\<rparr>)
     \<le> Stressed_PD (derive_row 0.05 \<lparr>Sector = ''Steel & Cement'', Exposure_INR_Cr = 100,
        Maturity_Years = 5, Interest_Rate = 0.1, LGD = 0.45, Carbon_Intensity = 1800,
        Transition_Readiness = 0.5\<rparr>)"
  using stressed_pd_bounds [of "0.05" "\<lparr>Sector = ''Steel & Cement'', Exposure_INR_Cr = 100,
        Maturity_Years = 5, Interest_Rate = 0.1, LGD = 0.45, Carbon_Intensity = 1800,
        Transition_Readiness = 0.5\<rparr>"]
  by (simp add: derive_row_Base_PD calibrate_base_pd_def)

text \<open>
  C4, as stated: a facility with readiness exactly 1 has \<open>stressed_pd = base_pd\<close>. The
  cap applies after the uplift whatever the readiness, so a base probability above 0.999
  is cut to 0.999.
\<close>

theorem full_readiness_counterexample:
  "Transition_Readiness \<lparr>Sector = ''IT Services'', Exposure_INR_Cr = 50,
          Maturity_Years = 3, Interest_Rate = 0.09, LGD = 0.45, Carbon_Intensity = 20,
          Transition_Readiness = 1\<rparr> = 1 \<and>
   Stressed_PD (derive_row 0.9993 \<lparr>Sector = ''IT Services'', Exposure_INR_Cr = 50,
          Maturity_Years = 3, Interest_Rate = 0.09, LGD = 0.45, Carbon_Intensity = 20,
          Transition_Readiness = 1\<rparr>)
     \<noteq> Base_PD (derive_row 0.9993 \<lparr>Sector = ''IT Services'', Exposure_INR_Cr = 50,
          Maturity_Years = 3, Interest_Rate = 0.09, LGD = 0.45, Carbon_Intensity = 20,
          Transition_Readiness = 1\<rparr>)"
  by (simp add: derive_row_Stressed_PD derive_row_Base_PD calibrate_base_pd_def stress_pd_def
      shock_impact_def carbon_tax_def)

text \<open>
  C4, amended: a facility with readiness exactly 1 has \<open>stressed_pd = min base_pd 0.999\<close>,
  whatever its carbon intensity; this is \<open>base_pd\<close> itself when \<open>base_pd \<le> 0.999\<close>.
\<close>

theorem full_readiness_stressed_pd:
  assumes "Transition_Readiness f = 1"
  shows "Stressed_PD (derive_row h f) = min (Base_PD (derive_row h f)) 0.999"
  using assms by (simp add: derive_row_Stressed_PD stress_pd_full_readiness)

theorem full_readiness_stressed_pd_witness:
  "Transition_Readiness \<lparr>Sector = ''IT Services'', Exposure_INR_Cr = 50,
          Maturity_Years = 3, Interest_Rate = 0.09, LGD = 0.45, Carbon_Intensity = 20,
          Transition_Readiness = 1\<rparr> = 1 \<and>
   Stressed_PD (derive_row 0.03 \<lparr>Sector = ''IT Services'', Exposure_INR_Cr = 50,
          Maturity_Years = 3, Interest_Rate = 0.09, LGD = 0.45, Carbon_Intensity = 20,
          Transition_Readiness = 1\<rparr>) = 0.0302"
  using full_readiness_stressed_pd [of "\<lparr>Sector = ''IT Services'', Exposure_INR_Cr = 50,
          Maturity_Years = 3, Interest_Rate = 0.09, LGD = 0.45, Carbon_Intensity = 20,
          Transition_Readiness = 1\<rparr>" "0.03"]
  by (simp add: derive_row_Base_PD calibrate_base_pd_def)

text \<open>
  C9. For every facility the net income handed to the optimizer is
  \<open>Exposure * Interest_Rate - Exposure * Stressed_PD * LGD\<close>; a facility has a positive
  exposure, and then the net income is strictly negative exactly when
  \<open>Stressed_PD * LGD > Interest_Rate\<close>.
\<close>

theorem net_income_formula_and_sign:
  "Net_Income (derive_row h f) =
     Exposure_INR_Cr f * Interest_Rate f -
     Exposure_INR_Cr f * Stressed_PD (derive_row h f) * LGD f \<and>
   (0 < Exposure_INR_Cr f \<longrightarrow>
     (Net_Income (derive_row h f) < 0 \<longleftrightarrow>
      Interest_Rate f < Stressed_PD (derive_row h f) * LGD f))"
proof -
  have eq: "Net_Income (derive_row h f) =
      Exposure_INR_Cr f * (Interest_Rate f - Stressed_PD (derive_row h f) * LGD f)"
    by (simp add: derive_row_Net_Income net_income_def algebra_simps)
  show ?thesis
    unfolding eq by (auto simp add: algebra_simps mult_less_0_iff)
qed

theorem net_income_formula_and_sign_witness:
  "(0::real) < Exposure_INR_Cr \<lparr>Sector = ''Steel & Cement'', Exposure_INR_Cr = 100,
        Maturity_Years = 5, Interest_Rate = 0.1, LGD = 0.45, Carbon_Intensity = 1800,
        Transition_Readiness = 0.5\<rparr> \<and>
   Net_Income (derive_row 0.05 \<lparr>Sector = ''Steel & Cement'', Exposure_INR_Cr = 100,
        Maturity_Years = 5, Interest_Rate = 0.1, LGD = 0.45, Carbon_Intensity = 1800,
        Transition_Readiness = 0.5\<rparr>) < 0"
  using net_income_formula_and_sign [of "0.05" "\<lparr>Sector = ''Steel & Cement'',
        Exposure_INR_Cr = 100, Maturity_Years = 5, Interest_Rate = 0.1, LGD = 0.45,
        Carbon_Intensity = 1800, Transition_Readiness = 0.5\<rparr>"]
  by (simp add: derive_row_Stressed_PD derive_row_Base_PD calibrate_base_pd_def stress_pd_def
      shock_impact_def carbon_tax_def)

section \<open>Properties of the capital engine\<close>

lemma exp_lower_sum:
  fixes x :: real
  assumes "0 \<le> x"
  shows "(\<Sum>m<n. x ^ m / fact m) \<le> exp x"
proof -
  have s: "summable (\<lambda>m. x ^ m / fact m)"
    using summable_exp [of x] by (simp add: field_simps)
  have "(\<Sum>m<n. x ^ m / fact m) \<le> (\<Sum>m. x ^ m / fact m)"
    by (rule sum_le_suminf [OF s]) (use assms in auto)
  also have "\<dots> = exp x"
    by (simp add: exp_def divide_inverse mult.commute)
  finally show ?thesis .
qed

lemma exp_upper_sum:
  fixes x :: real
  assumes "0 \<le> x" "x \<le> 1"
  shows "exp x \<le> (\<Sum>m<n. x ^ m / fact m) + 3 * x ^ n / fact n"
proof -
  obtain t where t: "\<bar>t\<bar> \<le> \<bar>x\<bar>"
    and e: "exp x = (\<Sum>m<n. x ^ m / fact m) + (exp t / fact n) * x ^ n"
    using Maclaurin_exp_le [of x n] by blast
  have "exp t \<le> exp 1" using t assms by simp
  also have "\<dots> \<le> 3" by (rule exp_le)
  finally have "exp t \<le> 3" .
  then have "(exp t / fact n) * x ^ n \<le> (3 / fact n) * x ^ n"
    using assms by (intro mult_right_mono divide_right_mono) simp_all
  with e show ?thesis by simp
qed

lemma exp_8114: "10000 / 3 < exp (8.114::real)"
proof -
  have "(10000 / 3 :: real) < (\<Sum>m<6. (0.507125::real) ^ m / fact m) ^ 16"
    by (simp add: lessThan_nat_numeral lessThan_Suc fact_numeral power_divide)
  also have "\<dots> \<le> exp 0.507125 ^ 16"
    by (intro power_mono exp_lower_sum sum_nonneg) simp_all
  also have "\<dots> = exp (8.114::real)"
    by (simp flip: exp_of_nat_mult)
  finally show ?thesis .
qed

lemma exp_81: "exp (8.1::real) < 10000 / 3"
proof -
  have "exp (8.1::real) = exp 0.50625 ^ 16"
    by (simp flip: exp_of_nat_mult)
  also have "\<dots> \<le> ((\<Sum>m<6. (0.50625::real) ^ m / fact m) + 3 * 0.50625 ^ 6 / fact 6) ^ 16"
    by (intro power_mono exp_upper_sum) simp_all
  also have "\<dots> < 10000 / 3"
    by (simp add: lessThan_nat_numeral lessThan_Suc fact_numeral power_divide)
  finally show ?thesis .
qed

lemma ln_pd_floor_bounds: "- 8.114 < ln (0.0003::real)" "ln (0.0003::real) < - 8.1"
proof -
  have "ln (inverse (10000 / 3 :: real)) = - ln (10000 / 3)"
    by (rule ln_inverse)
  then have e: "ln (0.0003::real) = - ln (10000 / 3)"
    by simp
  have "ln (10000 / 3 :: real) < ln (exp 8.114)"
    using exp_8114 by (subst ln_less_cancel_iff) simp_all
  then have "ln (10000 / 3 :: real) < 8.114" by simp
  then show "- 8.114 < ln (0.0003::real)" unfolding e by linarith
  have "ln (exp 8.1) < ln (10000 / 3 :: real)"
    using exp_81 by (subst ln_less_cancel_iff) simp_all
  then have "8.1 < ln (10000 / 3 :: real)" by simp
  then show "ln (0.0003::real) < - 8.1" unfolding e by linarith
qed

lemma maturity_adjustment_floor_value:
  "0.316 < maturity_adjustment 0.0003" "maturity_adjustment 0.0003 < 0.317"
proof -
  let ?u = "0.11852 - 0.05478 * ln (0.0003::real)"
  have lo: "0.562238 < ?u" and hi: "?u < 0.563006"
    using ln_pd_floor_bounds by simp_all
  have "(0.562238::real) ^ 2 < ?u ^ 2"
    using lo by (intro power_strict_mono) simp_all
  then show "0.316 < maturity_adjustment 0.0003"
    by (simp add: maturity_adjustment_def power2_eq_square)
  have "?u ^ 2 < (0.563006::real) ^ 2"
    using lo hi by (intro power_strict_mono) simp_all
  then show "maturity_adjustment 0.0003 < 0.317"
    by (simp add: maturity_adjustment_def power2_eq_square)
qed

lemma maturity_adjustment_antimono:
  assumes "0.0003 \<le> p" "p \<le> 1"
  shows "maturity_adjustment p \<le> maturity_adjustment 0.0003"
proof -
  have l1: "ln (0.0003::real) \<le> ln p" using assms by simp
  have l2: "ln p \<le> 0" using assms by simp
  have nonneg: "0 \<le> 0.11852 - 0.05478 * ln p" using l2
    by (simp add: mult_nonneg_nonpos)
  have "0.11852 - 0.05478 * ln p \<le> 0.11852 - 0.05478 * ln (0.0003::real)"
    using l1 by simp
  then show ?thesis
    unfolding maturity_adjustment_def using nonneg by (rule power_mono)
qed

lemma pd_floor_range: "0.0003 \<le> pd_floor pd_val" "pd_val \<le> 1 \<Longrightarrow> pd_floor pd_val \<le> 1"
  by (simp_all add: pd_floor_def)

text \<open>
  C10. For every pd input that is at most 1, the maturity adjustment of the floored pd is
  at most its value at \<open>pd = 0.0003\<close>, which lies between 0.316 and 0.317; hence the
  denominator \<open>1 - 1.5 * b\<close> of line 116 stays above \<open>1/2\<close>: the division is never by
  zero or by a negative number, whatever the maturity.
\<close>

theorem maturity_adjustment_denominator:
  assumes "pd_val \<le> 1"
  shows "maturity_adjustment (pd_floor pd_val) \<le> maturity_adjustment 0.0003 \<and>
         0.316 < maturity_adjustment 0.0003 \<and> maturity_adjustment 0.0003 < 0.317 \<and>
         1 / 2 < 1 - 1.5 * maturity_adjustment (pd_floor pd_val)"
  using maturity_adjustment_antimono [OF pd_floor_range(1) pd_floor_range(2) [OF assms]]
    maturity_adjustment_floor_value
  by simp

theorem maturity_adjustment_denominator_witness:
  "(0.05::real) \<le> 1 \<and> 1 / 2 < 1 - 1.5 * maturity_adjustment 0.05"
  using maturity_adjustment_denominator [of "0.05"]
  by (simp add: pd_floor_def)

section \<open>Properties of the optimizer stage\<close>

lemma decide_fields:
  "Optimized_Retention (decide r v) = v"
  "Stressed_Capital (decide r v) = Stressed_Capital r"
  "Current_Capital (decide r v) = Current_Capital r"
  "Exposure_INR_Cr (decide r v) = Exposure_INR_Cr r"
  "Strategy (decide r v) = (if v < 0.1 then ''Exit'' else ''Hold'')"
  by (simp_all add: decide_def risk_row.defs strategy_row.defs)

lemma sum_map2_decide:
  assumes "length df = length xs"
  shows "(\<Sum>s\<leftarrow>map2 decide df xs. Optimized_Retention s * Stressed_Capital s) =
           dot (map Stressed_Capital df) xs"
    and "(\<Sum>s\<leftarrow>map2 decide df xs. Optimized_Retention s * Exposure_INR_Cr s) =
           dot (map Exposure_INR_Cr df) xs"
    and "dot (map (\<lambda>r. - 1 * Exposure_INR_Cr r) df) xs = - dot (map Exposure_INR_Cr df) xs"
    and "map Current_Capital (map2 decide df xs) = map Current_Capital df"
    and "map Exposure_INR_Cr (map2 decide df xs) = map Exposure_INR_Cr df"
    and "map Optimized_Retention (map2 decide df xs) = xs"
  using assms
  by (induction df xs rule: list_induct2) (simp_all add: decide_fields dot_def)

lemma bounds_unit:
  fixes eps :: real
  assumes "length xs = length df"
    and "list_all (\<lambda>(v, (lo, hi)). lo - eps \<le> v \<and> v \<le> hi + eps)
           (zip xs (map (\<lambda>_. (0, 1)) df))"
  shows "\<forall>v\<in>set xs. - eps \<le> v \<and> v \<le> 1 + eps"
  using assms by (induction xs df rule: list_induct2) auto

text \<open>
  C6. Whenever the optimizer succeeds and writes \<open>Optimized_Retention\<close>, the retention
  column satisfies the three constraints within the solver's tolerance \<open>eps\<close>: retained
  stressed capital is at most 1.10 times the current capital, retained exposure is at
  least 0.85 times the exposure, and every retention lies in \<open>[0, 1]\<close>. The solver is
  any function that keeps the contract of \<^verbatim>\<open>linprog\<close>.
\<close>

theorem optimized_retention_feasible:
  assumes "linprog_contract eps linprog"
    and "optimize_portfolio linprog df = Inr out"
    and "final_strategy_output out = Some t"
  shows "(\<Sum>s\<leftarrow>t. Optimized_Retention s * Stressed_Capital s)
           \<le> 1.10 * (\<Sum>s\<leftarrow>t. Current_Capital s) + eps \<and>
         0.85 * (\<Sum>s\<leftarrow>t. Exposure_INR_Cr s) - eps
           \<le> (\<Sum>s\<leftarrow>t. Optimized_Retention s * Exposure_INR_Cr s) \<and>
         (\<forall>s\<in>set t. - eps \<le> Optimized_Retention s \<and> Optimized_Retention s \<le> 1 + eps)"
proof -
  define res where "res = linprog (formulate_lp df)"
  have ok: "success res" and len: "length (sol_x res) = length df"
    and t: "t = map2 decide df (sol_x res)"
    using assms(2,3) unfolding optimize_portfolio_def res_def [symmetric]
    by (auto simp add: Let_def split: if_splits)
  have feas: "lp_feasible eps (formulate_lp df) (sol_x res)"
    using assms(1) ok unfolding linprog_contract_def res_def by blast
  note s = sum_map2_decide [OF len [symmetric]]
  have cap: "dot (map Stressed_Capital df) (sol_x res)
      \<le> sum_list (map Current_Capital df) * 1.10 + eps"
    and vol: "dot (map (\<lambda>r. - 1 * Exposure_INR_Cr r) df) (sol_x res)
      \<le> - 1 * sum_list (map Exposure_INR_Cr df) * 0.85 + eps"
    and bnd: "list_all (\<lambda>(v, (lo, hi)). lo - eps \<le> v \<and> v \<le> hi + eps)
           (zip (sol_x res) (map (\<lambda>_. (0, 1)) df))"
    using feas by (simp_all add: lp_feasible_def formulate_lp_def)
  have b: "\<forall>v\<in>set (sol_x res). - eps \<le> v \<and> v \<le> 1 + eps"
    using bounds_unit [OF len bnd] .
  have "\<forall>s\<in>set t. Optimized_Retention s \<in> set (sol_x res)"
    using s(6) unfolding t by (metis image_eqI set_map)
  with b have c3: "\<forall>s\<in>set t. - eps \<le> Optimized_Retention s \<and> Optimized_Retention s \<le> 1 + eps"
    by blast
  have c1: "(\<Sum>s\<leftarrow>t. Optimized_Retention s * Stressed_Capital s)
           \<le> 1.10 * (\<Sum>s\<leftarrow>t. Current_Capital s) + eps"
    using cap unfolding t s(1) s(4) by simp
  have c2: "0.85 * (\<Sum>s\<leftarrow>t. Exposure_INR_Cr s) - eps
           \<le> (\<Sum>s\<leftarrow>t. Optimized_Retention s * Exposure_INR_Cr s)"
    using vol unfolding t s(2) s(3) s(5) by simp
  from c1 c2 c3 show ?thesis by blast
qed

lemma keep_all_solver_contract: "linprog_contract 0 keep_all_solver"
  by (simp add: linprog_contract_def keep_all_solver_def Let_def)

lemma demo_hold_run:
  "optimize_portfolio keep_all_solver [demo_row 10.5 11, demo_row 10.5 11.5] =
     Inr \<lparr>console = [Separator, Optimization_Successful, Stressed_ROE (16.4 / 22.5),
                       Optimized_ROE (16.4 / 22.5), Separator],
          final_strategy_output = Some [decide (demo_row 10.5 11) 1, decide (demo_row 10.5 11.5) 1],
          frame = Inr [decide (demo_row 10.5 11) 1, decide (demo_row 10.5 11.5) 1]\<rparr>"
  by (simp add: optimize_portfolio_def keep_all_solver_def formulate_lp_def lp_feasible_def
      dot_def demo_row_def Let_def)

theorem optimized_retention_feasible_witness:
  "linprog_contract 0 keep_all_solver \<and>
   (\<Sum>s\<leftarrow>[decide (demo_row 10.5 11) 1, decide (demo_row 10.5 11.5) 1].
       Optimized_Retention s * Stressed_Capital s) \<le> 1.10 * 21 + 0 \<and>
   0.85 * 200 - 0 \<le> (\<Sum>s\<leftarrow>[decide (demo_row 10.5 11) 1, decide (demo_row 10.5 11.5) 1].
       Optimized_Retention s * Exposure_INR_Cr s)"
  using optimized_retention_feasible [OF keep_all_solver_contract demo_hold_run,
      of "[decide (demo_row 10.5 11) 1, decide (demo_row 10.5 11.5) 1]"]
    keep_all_solver_contract
  by (simp add: decide_fields demo_row_def)

text \<open>
  C7. If the solve fails (\<open>success\<close> is false), the program prints the failure with the
  solver's message and nothing else: no rate of return is computed, the table in memory
  gets no \<open>Optimized_Retention\<close> or \<open>Strategy\<close> column and the output file is not written.
  The file, and the table with all derived columns, exist only when the solve succeeded.
\<close>

theorem solver_failure_no_output:
  "(\<not> success (linprog (formulate_lp df)) \<longrightarrow>
      optimize_portfolio linprog df =
        Inr \<lparr>console = [Optimization_Failed (message (linprog (formulate_lp df)))],
             final_strategy_output = None, frame = Inl df\<rparr>) \<and>
   (\<forall>out. optimize_portfolio linprog df = Inr out \<and>
      (final_strategy_output out \<noteq> None \<or> \<not> isl (frame out)) \<longrightarrow>
      success (linprog (formulate_lp df)))"
  by (auto simp add: optimize_portfolio_def Let_def split: if_splits)

theorem solver_failure_no_output_witness:
  "\<not> success (keep_all_solver (formulate_lp [demo_row 10.5 20])) \<and>
   optimize_portfolio keep_all_solver [demo_row 10.5 20] =
     Inr \<lparr>console = [Optimization_Failed ''The problem is infeasible.''],
          final_strategy_output = None, frame = Inl [demo_row 10.5 20]\<rparr>"
proof -
  have f: "\<not> success (keep_all_solver (formulate_lp [demo_row 10.5 20]))"
    by (simp add: keep_all_solver_def formulate_lp_def lp_feasible_def dot_def demo_row_def
        Let_def)
  have m: "message (keep_all_solver (formulate_lp [demo_row 10.5 20])) =
      ''The problem is infeasible.''"
    by (simp add: keep_all_solver_def formulate_lp_def lp_feasible_def dot_def demo_row_def
        Let_def)
  show ?thesis
    using solver_failure_no_output [of keep_all_solver "[demo_row 10.5 20]"] f m by simp
qed

section \<open>The floor on the probability of default\<close>

text \<open>
  C5. For every pd input, zero and negative ones included, \<open>calculate_rwa\<close> first
  floors pd at 0.0003: the logarithm and the normal quantile are applied to the floored
  value only, which is at least 0.0003 and so positive; hence every input at or below
  the floor gives the result of the floor itself.
\<close>

theorem pd_floor_guards_rwa:
  "0.0003 \<le> pd_floor pd_val \<and> 0 < pd_floor pd_val \<and>
   calculate_rwa exposure pd_val lgd maturity =
     exposure * capital_charge (pd_floor pd_val) lgd maturity * 12.5 \<and>
   (pd_val \<le> 0.0003 \<longrightarrow>
     calculate_rwa exposure pd_val lgd maturity = calculate_rwa exposure 0.0003 lgd maturity)"
proof -
  have "0.0003 \<le> pd_floor pd_val"
    by (simp add: pd_floor_def)
  moreover from this have "0 < pd_floor pd_val"
    by simp
  moreover have "pd_val \<le> 0.0003 \<Longrightarrow> pd_floor pd_val = pd_floor 0.0003"
    by (simp add: pd_floor_def)
  ultimately show ?thesis
    by (simp add: calculate_rwa_def)
qed

theorem pd_floor_guards_rwa_witness:
  "(- 1::real) \<le> 0.0003 \<and> calculate_rwa 100 (- 1) 0.45 5 = calculate_rwa 100 0.0003 0.45 5"
  using pd_floor_guards_rwa [of "- 1" 100 "0.45" 5]
  by simp

section \<open>Anomalies that reach the solver\<close>

text \<open>
  C8 says that every derived field that evaluated to NaN or Infinity is replaced by zero
  before the linear program is built. Line 142 replaces NaN only: an infinite cell of a
  column stays infinite.
\<close>

theorem fillna_keeps_infinity:
  "fillna 0 [Num 11.5, NaN, PosInf, NegInf] = [Num 11.5, Num 0, PosInf, NegInf] \<and>
   \<not> list_all isfinite (fillna 0 [Num 11.5, NaN, PosInf, NegInf])"
  by (simp add: fillna_def)

section \<open>The normal distribution function: derivative and enclosures\<close>

lemma odd_half_index:
  assumes "odd (n::nat)"
  shows "2 * ((n - 1) div 2) + 1 = n"
  using assms by (auto elim!: oddE)

lemma gauss_term_odd:
  "gauss_coeff n * x ^ n =
     (if even n then 0
      else (- 1) ^ ((n - 1) div 2) * x ^ (2 * ((n - 1) div 2) + 1) /
           (2 ^ ((n - 1) div 2) * fact ((n - 1) div 2) * real (2 * ((n - 1) div 2) + 1)))"
proof (cases "even n")
  case True
  then show ?thesis by (simp add: gauss_coeff_def)
next
  case False
  then have "2 * ((n - 1) div 2) + 1 = n" by (rule odd_half_index)
  then show ?thesis using False by (simp add: gauss_coeff_def)
qed

lemma gauss_odd_summable:
  fixes x :: real
  shows "summable (\<lambda>k. (- 1) ^ k * x ^ (2 * k + 1) / (2 ^ k * fact k * real (2 * k + 1)))"
proof (rule summable_comparison_test')
  show "summable (\<lambda>k. \<bar>x\<bar> * (inverse (fact k) * (x\<^sup>2 / 2) ^ k))"
    by (intro summable_mult summable_exp)
  fix k :: nat
  have p: "x ^ (2 * k + 1) = x * (x\<^sup>2) ^ k"
    by (simp add: power_mult)
  have nn: "0 \<le> (x\<^sup>2) ^ k" by simp
  have "norm ((- 1) ^ k * x ^ (2 * k + 1) / (2 ^ k * fact k * real (2 * k + 1)))
      = \<bar>x\<bar> * (x\<^sup>2) ^ k / (2 ^ k * fact k * real (2 * k + 1))"
    unfolding p using nn by (simp add: abs_mult power_abs)
  also have "\<dots> = (\<bar>x\<bar> * (x\<^sup>2) ^ k / (2 ^ k * fact k)) / real (2 * k + 1)"
    by simp
  also have "\<dots> \<le> (\<bar>x\<bar> * (x\<^sup>2) ^ k / (2 ^ k * fact k)) / 1"
    using nn by (intro divide_left_mono) simp_all
  also have "\<dots> = \<bar>x\<bar> * (inverse (fact k) * (x\<^sup>2 / 2) ^ k)"
    by (simp add: power_divide field_simps)
  finally show "norm ((- 1) ^ k * x ^ (2 * k + 1) / (2 ^ k * fact k * real (2 * k + 1)))
      \<le> \<bar>x\<bar> * (inverse (fact k) * (x\<^sup>2 / 2) ^ k)" .
qed

lemma gauss_int_summable: "summable (\<lambda>n. gauss_coeff n * x ^ n)"
proof -
  let ?g = "\<lambda>k. (- 1) ^ k * x ^ (2 * k + 1) / (2 ^ k * fact k * real (2 * k + 1))"
  have "?g sums suminf ?g"
    using gauss_odd_summable by (rule summable_sums)
  from sums_if' [OF this] show ?thesis
    unfolding gauss_term_odd [symmetric] by (rule sums_summable)
qed

lemma diffs_gauss_term:
  "diffs gauss_coeff n * x ^ n =
     (if even n then inverse (fact (n div 2)) * (- (x\<^sup>2) / 2) ^ (n div 2) else 0)"
proof (cases "even n")
  case True
  then obtain k where n: "n = 2 * k" by (auto elim: evenE)
  have c: "gauss_coeff (Suc (2 * k)) = (- 1) ^ k / (2 ^ k * fact k * real (Suc (2 * k)))"
    by (simp add: gauss_coeff_def)
  have d: "diffs gauss_coeff (2 * k) = (- 1) ^ k / (2 ^ k * fact k)"
    unfolding diffs_def c by simp
  have m: "(- (x\<^sup>2) / 2) ^ k = (- 1) ^ k * (x\<^sup>2) ^ k / 2 ^ k"
    by (simp add: power_minus [of "x\<^sup>2 / 2"] power_divide)
  have xp: "x ^ (2 * k) = (x\<^sup>2) ^ k"
    by (simp add: power_mult)
  have "diffs gauss_coeff (2 * k) * x ^ (2 * k) = inverse (fact k) * (- (x\<^sup>2) / 2) ^ k"
    unfolding d m xp by (simp add: field_simps)
  then show ?thesis
    by (simp add: n)
next
  case False
  then show ?thesis by (simp add: diffs_def gauss_coeff_def)
qed

lemma diffs_gauss_sums: "(\<lambda>n. diffs gauss_coeff n * x ^ n) sums exp (- (x\<^sup>2) / 2)"
proof -
  have e: "(\<lambda>k. inverse (fact k) * (- (x\<^sup>2) / 2) ^ k) sums exp (- (x\<^sup>2) / 2)"
    using exp_converges [of "- (x\<^sup>2) / 2"] by simp
  have z: "(\<lambda>k::nat. 0::real) sums 0" by simp
  from sums_if [OF z e] show ?thesis
    unfolding diffs_gauss_term by simp
qed

lemma DERIV_gauss_int: "DERIV gauss_int x :> exp (- (x\<^sup>2) / 2)"
proof -
  have "((\<lambda>x. \<Sum>n. gauss_coeff n * x ^ n) has_field_derivative
      (\<Sum>n. diffs gauss_coeff n * x ^ n)) (at x)"
    by (rule termdiffs_strong_converges_everywhere) (rule gauss_int_summable)
  moreover have "(\<Sum>n. diffs gauss_coeff n * x ^ n) = exp (- (x\<^sup>2) / 2)"
    using diffs_gauss_sums by (rule sums_unique [symmetric])
  ultimately show ?thesis
    unfolding gauss_int_def [abs_def] by simp
qed







lemma gauss_int_mono:
  assumes "x \<le> y"
  shows "gauss_int x \<le> gauss_int y"
proof (rule DERIV_nonneg_imp_nondecreasing [OF assms])
  fix t :: real
  show "\<exists>y. DERIV gauss_int t :> y \<and> 0 \<le> y"
    using DERIV_gauss_int [of t] by (intro exI [of _ "exp (- (t\<^sup>2) / 2)"]) simp
qed


subsection \<open>Bounds on \<open>pi\<close>\<close>







subsection \<open>Values of the distribution function and of the quantile\<close>













section \<open>The capital charge is not monotone in the probability of default\<close>














end
